theory Spec2Isabelle
  imports Main
begin

section \<open>Strings and formatting\<close>

text \<open>
  Go strings are byte sequences; they are modelled as \<^typ>\<open>string\<close>. A Go \<open>error\<close> value is
  modelled by its message, and a possibly-nil error by \<^typ>\<open>string option\<close>
  (\<^term>\<open>None\<close> is \<open>nil\<close>).
\<close>

type_synonym error = string

definition HasPrefix :: "string \<Rightarrow> string \<Rightarrow> bool" where
  \<comment> \<open>\<open>strings.HasPrefix(s, prefix)\<close>: \<open>len(s) >= len(prefix) && s[:len(prefix)] == prefix\<close>\<close>
  "HasPrefix s p = (length p \<le> length s \<and> take (length p) s = p)"

fun Contains :: "string \<Rightarrow> string \<Rightarrow> bool" where
  \<comment> \<open>\<open>strings.Contains(s, substr)\<close>: \<open>substr\<close> occurs at some offset of \<open>s\<close>\<close>
  "Contains [] sub = (sub = [])"
| "Contains (c # s) sub = (HasPrefix (c # s) sub \<or> Contains s sub)"

fun Sprintf :: "string \<Rightarrow> string list \<Rightarrow> string" where
  \<comment> \<open>\<open>fmt.Sprintf\<close> restricted to what the program uses: the verbs \<open>%s\<close>, \<open>%v\<close> and \<open>%w\<close>,
      each printing the text of its operand (operands are passed already as text).
      A verb with no operand left prints \<open>%!verb(MISSING)\<close>, as the \<open>fmt\<close> package documents.
      No call of the program passes more operands than verbs.\<close>
  "Sprintf [] args = []"
| "Sprintf (c # fs) args =
     (if c = CHR ''%'' then
        (case fs of
           [] \<Rightarrow> ''%!(NOVERB)''
         | v # rest \<Rightarrow>
             (case args of
                [] \<Rightarrow> ''%!'' @ [v] @ ''(MISSING)'' @ Sprintf rest []
              | a # as \<Rightarrow> a @ Sprintf rest as))
      else c # Sprintf fs args)"

definition show_err :: "error option \<Rightarrow> string" where
  \<comment> \<open>the text \<open>%v\<close> prints for an \<open>error\<close> operand\<close>
  "show_err e = (case e of None \<Rightarrow> ''<nil>'' | Some s \<Rightarrow> s)"

section \<open>Release catalog and build selection (package common)\<close>

record FileEntry =
  Filename :: string
  OS :: string
  Arch :: string
  Kind :: string
  Sha256 :: string

record GoRelease =
  Version :: string
  Files :: "FileEntry list"

definition GoRelease_zero :: GoRelease where
  \<comment> \<open>the zero value \<open>GoRelease{}\<close>\<close>
  "GoRelease_zero = \<lparr>Version = [], Files = []\<rparr>"

definition NormalizeVersion :: "string \<Rightarrow> string" where
  "NormalizeVersion v =
     (if v = [] then []
      else if \<not> HasPrefix v ''go'' then ''go'' @ v
      else v)"

fun FindBuild_files :: "FileEntry list \<Rightarrow> string \<Rightarrow> string \<Rightarrow> FileEntry option" where
  \<comment> \<open>the inner loop of \<open>FindBuild\<close> over \<open>r.Files\<close>\<close>
  "FindBuild_files [] goos arch = None"
| "FindBuild_files (f # fs) goos arch =
     (if Kind f = ''archive'' \<and> OS f = goos \<and> Arch f = arch then Some f
      else FindBuild_files fs goos arch)"

fun FindBuild :: "GoRelease list \<Rightarrow> string \<Rightarrow> string \<Rightarrow> string
                   \<Rightarrow> GoRelease \<times> string \<times> string \<times> error option" where
  "FindBuild [] ver goos arch =
     (GoRelease_zero, [], [], Some (Sprintf ''version %s not found'' [ver]))"
| "FindBuild (r # rs) ver goos arch =
     (if Version r \<noteq> ver then FindBuild rs ver goos arch
      else (case FindBuild_files (Files r) goos arch of
              Some f \<Rightarrow> (r, Filename f, Sha256 f, None)
            | None \<Rightarrow> (r, [], [], Some (Sprintf ''version %s exists but no archive for %s/%s''
                                             [ver, goos, arch]))))"

section \<open>Files, HTTP and digests (the collaborators of the pipeline steps)\<close>

text \<open>
  A file has a content and the ways the operating system can refuse it: opening it for reading
  or for writing can fail, reading an opened file can fail, and the device can run out of room
  while it is written. The file system maps a path to its file; \<open>no_create\<close> lists the paths
  at which a new file cannot be created.
\<close>

record file_node =
  content :: string
  can_read :: bool
  read_fails :: bool
  can_write :: bool
  room :: "nat option"

record fsys =
  files :: "string \<Rightarrow> file_node option"
  no_create :: "string set"

definition new_file :: file_node where
  "new_file = \<lparr>content = [], can_read = True, read_fails = False, can_write = True, room = None\<rparr>"

definition put_file :: "fsys \<Rightarrow> string \<Rightarrow> file_node \<Rightarrow> fsys" where
  "put_file fs p f = fs\<lparr>files := (files fs)(p \<mapsto> f)\<rparr>"

definition write_bytes :: "file_node \<Rightarrow> string \<Rightarrow> file_node \<times> error option" where
  \<comment> \<open>a write at the end of the file: complete, or cut short by the room left\<close>
  "write_bytes f bs =
     (case room f of
        None \<Rightarrow> (f\<lparr>content := content f @ bs\<rparr>, None)
      | Some n \<Rightarrow>
          if length bs \<le> n then (f\<lparr>content := content f @ bs, room := Some (n - length bs)\<rparr>, None)
          else (f\<lparr>content := content f @ take n bs, room := Some 0\<rparr>,
                Some ''no space left on device''))"


definition os_Open :: "fsys \<Rightarrow> string \<Rightarrow> error + file_node" where
  \<comment> \<open>\<open>os.Open\<close>: opens for reading\<close>
  "os_Open fs p =
     (case files fs p of
        None \<Rightarrow> Inl (''open '' @ p @ '': no such file or directory'')
      | Some f \<Rightarrow> if can_read f then Inr f else Inl (''open '' @ p @ '': permission denied''))"



definition hextable :: string where
  "hextable = ''0123456789abcdef''"

definition hex_byte :: "char \<Rightarrow> string" where
  "hex_byte c = [hextable ! ((of_char c :: nat) div 16), hextable ! ((of_char c :: nat) mod 16)]"

definition EncodeToString :: "string \<Rightarrow> string" where
  \<comment> \<open>\<open>hex.EncodeToString\<close>: two lower-case hexadecimal digits per byte\<close>
  "EncodeToString bs = concat (map hex_byte bs)"

definition verifyChecksum :: "(string \<Rightarrow> string) \<Rightarrow> fsys \<Rightarrow> string \<Rightarrow> string \<Rightarrow> error option" where
  \<comment> \<open>\<open>sha\<close> is the SHA-256 function of \<open>crypto/sha256\<close> (from a byte string to its 32 digest
      bytes), a parameter of the model\<close>
  "verifyChecksum sha fs name want =
     (case os_Open fs name of
        Inl e \<Rightarrow> Some e
      | Inr f \<Rightarrow>
          if read_fails f then Some (''read '' @ name @ '': input/output error'')
          else (let got = EncodeToString (sha (content f)) in
                if got \<noteq> want then Some (Sprintf ''sha mismatch: want=%s got=%s'' [want, got])
                else None))"

definition toLower :: "char \<Rightarrow> char" where
  "toLower c =
     (if (65::nat) \<le> of_char c \<and> (of_char c :: nat) \<le> 90 then char_of ((of_char c :: nat) + 32) else c)"

definition hex_equal_fold :: "string \<Rightarrow> string \<Rightarrow> bool" where
  \<comment> \<open>the comparison the specification words: equal hexadecimal text, letter case ignored\<close>
  "hex_equal_fold a b = (map toLower a = map toLower b)"

record environ =
  HOME :: string
  SHELL :: string

definition os_UserHomeDir :: "environ \<Rightarrow> error + string" where
  "os_UserHomeDir env = (if HOME env = [] then Inl ''$HOME is not defined'' else Inr (HOME env))"

definition configFiles :: "(string \<Rightarrow> string \<Rightarrow> string) \<Rightarrow> string \<Rightarrow> string \<Rightarrow> string list" where
  \<comment> \<open>the candidate list of \<open>setupEnvironment\<close>; \<open>join\<close> is \<open>filepath.Join\<close>\<close>
  "configFiles join homeDir shell =
     (if Contains shell ''zsh'' then [join homeDir ''.zshrc'']
      else if Contains shell ''bash'' then [join homeDir ''.bashrc'', join homeDir ''.bash_profile'']
      else [join homeDir ''.bashrc''])"

definition goPath :: string where
  "goPath = ''export PATH=$PATH:/usr/local/go/bin''"

definition goPathComment :: string where
  "goPathComment = ''# Added by go-install''"

fun setupEnvironment_loop :: "fsys \<Rightarrow> string list \<Rightarrow> error option \<times> fsys" where
  "setupEnvironment_loop fs [] = (Some ''could not find shell config file to update'', fs)"
| "setupEnvironment_loop fs (configFile # rest) =
     (case files fs configFile of
        None \<Rightarrow> setupEnvironment_loop fs rest
      | Some f \<Rightarrow>
          if \<not> can_read f \<or> read_fails f then setupEnvironment_loop fs rest
          else if Contains (content f) ''/usr/local/go/bin'' then (None, fs)
          else if \<not> can_write f then setupEnvironment_loop fs rest
          else (case write_bytes f (Sprintf ''\<newline>%s\<newline>%s\<newline>'' [goPathComment, goPath]) of
                  (f', Some e) \<Rightarrow> setupEnvironment_loop (put_file fs configFile f') rest
                | (f', None) \<Rightarrow> (None, put_file fs configFile f')))"

definition setupEnvironment ::
  "(string \<Rightarrow> string \<Rightarrow> string) \<Rightarrow> environ \<Rightarrow> fsys \<Rightarrow> error option \<times> fsys" where
  "setupEnvironment join env fs =
     (case os_UserHomeDir env of
        Inl e \<Rightarrow> (Some e, fs)
      | Inr homeDir \<Rightarrow> setupEnvironment_loop fs (configFiles join homeDir (SHELL env)))"

definition passed_over :: "fsys \<Rightarrow> string \<Rightarrow> bool" where
  \<comment> \<open>a candidate at which the loop of \<open>setupEnvironment\<close> takes a \<open>continue\<close> before it
      has written anything: the file is missing, or cannot be read, or lacks the entry and
      cannot be opened for appending\<close>
  "passed_over fs q =
     (case files fs q of
        None \<Rightarrow> True
      | Some g \<Rightarrow> \<not> can_read g \<or> read_fails g
                  \<or> (\<not> Contains (content g) ''/usr/local/go/bin'' \<and> \<not> can_write g))"

section \<open>Messages, commands and the terminal toolkit (package cli)\<close>

record dependency =
  dep_name :: string
  dep_checkCmd :: string
  dep_packageName :: "(string \<times> string) list"
  dep_required :: bool

record distroInfo =
  distro_name :: string
  packageManager :: string
  installCmd :: string
  updateCmd :: string

definition requiredDeps :: "dependency list" where
  "requiredDeps =
     [\<lparr>dep_name = ''CA Certificates'', dep_checkCmd = ''test -f /etc/ssl/certs/ca-certificates.crt'',
       dep_packageName = [(''debian'', ''ca-certificates''), (''ubuntu'', ''ca-certificates''),
                          (''fedora'', ''ca-certificates''), (''rhel'', ''ca-certificates''),
                          (''arch'', ''ca-certificates''), (''alpine'', ''ca-certificates'')],
       dep_required = True\<rparr>,
      \<lparr>dep_name = ''GCC'', dep_checkCmd = ''gcc --version'',
       dep_packageName = [(''debian'', ''build-essential''), (''ubuntu'', ''build-essential''),
                          (''fedora'', ''gcc gcc-c++ make''), (''rhel'', ''gcc gcc-c++ make''),
                          (''arch'', ''base-devel''), (''alpine'', ''build-base'')],
       dep_required = True\<rparr>,
      \<lparr>dep_name = ''Make'', dep_checkCmd = ''make --version'',
       dep_packageName = [(''debian'', ''build-essential''), (''ubuntu'', ''build-essential''),
                          (''fedora'', ''make''), (''rhel'', ''make''),
                          (''arch'', ''base-devel''), (''alpine'', ''build-base'')],
       dep_required = True\<rparr>,
      \<lparr>dep_name = ''Git'', dep_checkCmd = ''git --version'',
       dep_packageName = [(''debian'', ''git''), (''ubuntu'', ''git''), (''fedora'', ''git''),
                          (''rhel'', ''git''), (''arch'', ''git''), (''alpine'', ''git'')],
       dep_required = False\<rparr>]"

record item =
  title :: string
  desc :: string

datatype msg =
    KeyMsg string
  | DownloadedMsg string string "error option"
  | VerifiedMsg "error option"
  | RemovedMsg "error option"
  | ExtractedMsg "error option"
  | ConfiguredMsg "error option"
  | TickMsg
  | DepsCheckMsg "dependency list" distroInfo "error option"
  | DepsInstallMsg "error option"
  | FetchedMsg "GoRelease list" "error option"
  | InstallCompleteMsg "error option"
  | OtherMsg
  \<comment> \<open>the \<open>tea.Msg\<close> values the program distinguishes; \<open>KeyMsg\<close> carries \<open>msg.String()\<close>,
      the step messages carry their fields in the order of the source, \<open>OtherMsg\<close> is any
      message of another type\<close>

datatype cmd =
    NoCmd
  | Quit
  | Batch "cmd list"
  | SpinnerTick
  | WidgetCmd nat
  | CheckDependencies
  | FetchReleases
  | InstallDependencies distroInfo "dependency list"
  | StepDownload "GoRelease list" string string string
  | StepVerify string string
  | StepRemove
  | StepExtract string
  | StepConfigure
  \<comment> \<open>the \<open>tea.Cmd\<close> values the program returns; \<open>NoCmd\<close> is \<open>nil\<close>, a step command carries
      the fields of the model that its closure reads, \<open>WidgetCmd\<close> is a command made by a
      widget of the toolkit\<close>

datatype widget_cmd = WidgetNil | WidgetQuit | WidgetOther nat
  \<comment> \<open>what a widget of the toolkit can hand back as its command: \<open>nil\<close>, \<open>tea.Quit\<close>, or a
      command of its own (a tick, a filter update); never a closure of this program\<close>

definition cmd_of_widget :: "widget_cmd \<Rightarrow> cmd" where
  "cmd_of_widget w = (case w of WidgetNil \<Rightarrow> NoCmd | WidgetQuit \<Rightarrow> Quit | WidgetOther n \<Rightarrow> WidgetCmd n)"

datatype style = TitleStyle | ErrorStyle | SuccessStyle | InfoStyle | BoldStyle | Color240Style

text \<open>
  The terminal toolkit (spinner, list, styles) and the iteration order of a Go map are outside
  the repository. They are parameters of the model: \<open>'s\<close> is the state of a spinner,
  \<open>'l\<close> the state of a list widget.
\<close>

record ('s, 'l) ext =
  spinner_New :: 's
  spinner_Update :: "'s \<Rightarrow> msg \<Rightarrow> 's \<times> widget_cmd"
  spinner_View :: "'s \<Rightarrow> string"
  list_Zero :: 'l
  list_New :: "item list \<Rightarrow> 'l"
  list_SelectedItem :: "'l \<Rightarrow> item option"
  list_Update :: "'l \<Rightarrow> msg \<Rightarrow> 'l \<times> widget_cmd"
  list_View :: "'l \<Rightarrow> string"
  Render :: "style \<Rightarrow> string \<Rightarrow> string"
  range_order :: "string list \<Rightarrow> string list"

definition check_mark :: string where
  "check_mark = [CHR 0xE2, CHR 0x9C, CHR 0x93]"

definition ballot_x :: string where
  "ballot_x = [CHR 0xE2, CHR 0x9C, CHR 0x97]"

definition warning_sign :: string where
  "warning_sign = [CHR 0xE2, CHR 0x9A, CHR 0xA0, CHR 0xEF, CHR 0xB8, CHR 0x8F]"

definition bullet :: string where
  "bullet = [CHR 0xE2, CHR 0x80, CHR 0xA2]"

section \<open>The installation pipeline (installModel)\<close>

datatype installState =
    installStateDownloading
  | installStateVerifying
  | installStateRemoving
  | installStateExtracting
  | installStateConfiguring
  | installStateDone
  | installStateError

record 's installModel =
  i_state :: installState
  i_spinner :: 's
  i_version :: string
  i_targetOS :: string
  i_targetArch :: string
  i_releases :: "GoRelease list"
  i_err :: "error option"
  i_filename :: string
  i_sha256 :: string

definition newInstallModel ::
  "('s, 'l) ext \<Rightarrow> string \<Rightarrow> string \<Rightarrow> string \<Rightarrow> GoRelease list \<Rightarrow> 's installModel" where
  "newInstallModel ui version targetOS targetArch releases =
     \<lparr>i_state = installStateDownloading, i_spinner = spinner_New ui, i_version = version,
      i_targetOS = targetOS, i_targetArch = targetArch, i_releases = releases,
      i_err = None, i_filename = [], i_sha256 = []\<rparr>"

definition stepDownload :: "'s installModel \<Rightarrow> cmd" where
  "stepDownload m = StepDownload (i_releases m) (i_version m) (i_targetOS m) (i_targetArch m)"

definition stepVerify :: "'s installModel \<Rightarrow> cmd" where
  "stepVerify m = StepVerify (i_filename m) (i_sha256 m)"

definition stepRemove :: "'s installModel \<Rightarrow> cmd" where
  "stepRemove m = StepRemove"

definition stepExtract :: "'s installModel \<Rightarrow> cmd" where
  "stepExtract m = StepExtract (i_filename m)"

definition stepConfigure :: "'s installModel \<Rightarrow> cmd" where
  "stepConfigure m = StepConfigure"

definition installModel_Init :: "'s installModel \<Rightarrow> cmd" where
  "installModel_Init m = Batch [SpinnerTick, stepDownload m]"

definition fail_with :: "'s installModel \<Rightarrow> error \<Rightarrow> 's installModel \<times> cmd" where
  \<comment> \<open>the error branch every step message shares: \<open>m.err = msg.err; m.state = installStateError;
      return m, tea.Quit\<close>\<close>
  "fail_with m e = (m\<lparr>i_err := Some e, i_state := installStateError\<rparr>, Quit)"

definition installModel_Update ::
  "('s, 'l) ext \<Rightarrow> 's installModel \<Rightarrow> msg \<Rightarrow> 's installModel \<times> cmd" where
  "installModel_Update ui m msg =
     (case msg of
        KeyMsg k \<Rightarrow> if k = ''ctrl+c'' \<or> k = ''q'' then (m, Quit) else (m, NoCmd)
      | DownloadedMsg fname sha e \<Rightarrow>
          (case e of
             Some x \<Rightarrow> fail_with m x
           | None \<Rightarrow>
               (let m' = m\<lparr>i_filename := fname, i_sha256 := sha, i_state := installStateVerifying\<rparr>
                in (m', stepVerify m')))
      | VerifiedMsg e \<Rightarrow>
          (case e of
             Some x \<Rightarrow> fail_with m x
           | None \<Rightarrow> (let m' = m\<lparr>i_state := installStateRemoving\<rparr> in (m', stepRemove m')))
      | RemovedMsg e \<Rightarrow>
          (case e of
             Some x \<Rightarrow> fail_with m x
           | None \<Rightarrow> (let m' = m\<lparr>i_state := installStateExtracting\<rparr> in (m', stepExtract m')))
      | ExtractedMsg e \<Rightarrow>
          (case e of
             Some x \<Rightarrow> fail_with m x
           | None \<Rightarrow> (let m' = m\<lparr>i_state := installStateConfiguring\<rparr> in (m', stepConfigure m')))
      | ConfiguredMsg e \<Rightarrow>
          (case e of
             Some x \<Rightarrow> fail_with m x
           | None \<Rightarrow> (m\<lparr>i_state := installStateDone\<rparr>, Quit))
      | TickMsg \<Rightarrow>
          if i_state m = installStateDone \<or> i_state m = installStateError then (m, NoCmd)
          else (case spinner_Update ui (i_spinner m) msg of (sp, c) \<Rightarrow> (m\<lparr>i_spinner := sp\<rparr>, cmd_of_widget c))
      | _ \<Rightarrow> (m, NoCmd))"

definition getStepDescription :: "'s installModel \<Rightarrow> string" where
  "getStepDescription m =
     (case i_state m of
        installStateDownloading \<Rightarrow> ''Downloading Go archive...''
      | installStateVerifying \<Rightarrow> ''Verifying checksum...''
      | installStateRemoving \<Rightarrow> ''Removing old installation...''
      | installStateExtracting \<Rightarrow> ''Extracting archive...''
      | installStateConfiguring \<Rightarrow> ''Configuring environment...''
      | _ \<Rightarrow> ''Installing...'')"

definition installModel_View :: "('s, 'l) ext \<Rightarrow> 's installModel \<Rightarrow> string" where
  "installModel_View ui m =
     (if i_state m = installStateError then
        Render ui ErrorStyle
          (Sprintf (''\<newline>'' @ ballot_x @ '' Error: %v\<newline>\<newline>'') [show_err (i_err m)])
      else if i_state m = installStateDone then
        Render ui SuccessStyle
          (Sprintf (''\<newline>'' @ check_mark @ '' Successfully installed %s to /usr/local/go'') [])
        @ Render ui InfoStyle
            ''\<newline>Please restart your terminal or run 'source' on your shell configuration file to apply the changes.\<newline>''
      else Sprintf ''\<newline>%s %s\<newline>'' [spinner_View ui (i_spinner m), getStepDescription m])"

text \<open>
  What a step command sends back when it has run. The closure calls one I/O function
  (\<open>downloadFile\<close>, \<open>verifyChecksum\<close>, \<open>os.RemoveAll\<close>, \<open>extractTarGz\<close>, \<open>setupEnvironment\<close>)
  and wraps its error; \<open>io\<close> is that function, from the argument the step passes to the
  error returned. A command that is not a step of the pipeline sends nothing to it.
\<close>

definition run_stepDownload ::
  "GoRelease list \<Rightarrow> string \<Rightarrow> string \<Rightarrow> string \<Rightarrow> (string \<Rightarrow> error option) \<Rightarrow> msg" where
  "run_stepDownload releases version targetOS targetArch download =
     (case FindBuild releases version targetOS targetArch of
        (r, fname, sha, Some e) \<Rightarrow> DownloadedMsg [] [] (Some e)
      | (r, fname, sha, None) \<Rightarrow>
          (case download fname of
             Some e \<Rightarrow> DownloadedMsg [] [] (Some e)
           | None \<Rightarrow> DownloadedMsg fname sha None))"

definition run_step :: "cmd \<Rightarrow> (string \<Rightarrow> error option) \<Rightarrow> msg option" where
  "run_step c io =
     (case c of
        StepDownload releases version targetOS targetArch \<Rightarrow>
          Some (run_stepDownload releases version targetOS targetArch io)
      | StepVerify fname sha \<Rightarrow> Some (VerifiedMsg (io fname))
      | StepRemove \<Rightarrow> Some (RemovedMsg (io ''/usr/local/go''))
      | StepExtract fname \<Rightarrow> Some (ExtractedMsg (io fname))
      | StepConfigure \<Rightarrow> Some (ConfiguredMsg (io []))
      | _ \<Rightarrow> None)"

section \<open>The event loop around the pipeline\<close>

text \<open>
  The event loop of the toolkit delivers one message at a time to \<open>Update\<close>. A message is a
  key press, a spinner tick, a message of a type the pipeline does not know (a window size,
  say), or what the step command in flight sends back when its I/O call has returned;
  \<open>tea.Quit\<close> ends the loop. A session records the model, the step in flight,
  whether the loop has ended, and the messages delivered so far.
\<close>

datatype input = Key string | Tick | Other | Finished "error option"











section \<open>The orchestrator (mainModel)\<close>

datatype mainState =
    mainStateCheckingDeps
  | mainStateConfirmInstallDeps
  | mainStateInstallingDeps
  | mainStateFetching
  | mainStateSelectVersion
  | mainStateConfirmOverride
  | mainStateInstalling
  | mainStateDone
  | mainStateError

record ('s, 'l) mainModel =
  m_state :: mainState
  m_releases :: "GoRelease list"
  m_list :: 'l
  m_spinner :: 's
  m_selectedVer :: string
  m_targetOS :: string
  m_targetArch :: string
  m_err :: "error option"
  m_missingDeps :: "dependency list"
  m_distro :: distroInfo

datatype ('s, 'l) model = MainM "('s, 'l) mainModel" | InstallM "'s installModel"

definition distroInfo_zero :: distroInfo where
  "distroInfo_zero = \<lparr>distro_name = [], packageManager = [], installCmd = [], updateCmd = []\<rparr>"

definition NewMainModel :: "('s, 'l) ext \<Rightarrow> string \<Rightarrow> string \<Rightarrow> string \<Rightarrow> ('s, 'l) mainModel" where
  \<comment> \<open>\<open>goos\<close> and \<open>goarch\<close> are \<open>common.GetOS()\<close> and \<open>common.GetArch()\<close>\<close>
  "NewMainModel ui goos goarch version =
     \<lparr>m_state = mainStateCheckingDeps, m_releases = [], m_list = list_Zero ui,
      m_spinner = spinner_New ui, m_selectedVer = NormalizeVersion version,
      m_targetOS = goos, m_targetArch = goarch, m_err = None, m_missingDeps = [],
      m_distro = distroInfo_zero\<rparr>"

definition mainModel_Init :: "('s, 'l) mainModel \<Rightarrow> cmd" where
  "mainModel_Init m = Batch [SpinnerTick, CheckDependencies]"

definition startInstallation :: "('s, 'l) ext \<Rightarrow> ('s, 'l) mainModel \<Rightarrow> ('s, 'l) model \<times> cmd" where
  "startInstallation ui m =
     (let installMod = newInstallModel ui (m_selectedVer m) (m_targetOS m) (m_targetArch m)
                         (m_releases m)
      in (InstallM installMod, installModel_Init installMod))"

definition confirm_or_start ::
  "('s, 'l) ext \<Rightarrow> bool \<Rightarrow> ('s, 'l) mainModel \<Rightarrow> ('s, 'l) model \<times> cmd" where
  \<comment> \<open>\<open>if _, err := os.Stat("/usr/local/go"); err == nil { m.state = mainStateConfirmOverride;
      return m, nil }; return m.startInstallation()\<close>, with \<open>stat_ok\<close> for \<open>err == nil\<close>\<close>
  "confirm_or_start ui stat_ok m =
     (if stat_ok then (MainM (m\<lparr>m_state := mainStateConfirmOverride\<rparr>), NoCmd)
      else startInstallation ui m)"

definition list_tail :: "('s, 'l) ext \<Rightarrow> ('s, 'l) mainModel \<Rightarrow> msg \<Rightarrow> ('s, 'l) model \<times> cmd" where
  \<comment> \<open>the end of \<open>Update\<close>, reached by every case that does not return\<close>
  "list_tail ui m msg =
     (if m_state m = mainStateSelectVersion then
        (case list_Update ui (m_list m) msg of (l, c) \<Rightarrow> (MainM (m\<lparr>m_list := l\<rparr>), cmd_of_widget c))
      else (MainM m, NoCmd))"

definition release_items :: "GoRelease list \<Rightarrow> item list" where
  "release_items releases =
     map (\<lambda>(i, r). \<lparr>title = Version r,
                     desc = (if i = (0::nat) then ''Latest stable release'' else ''Go release'')\<rparr>)
       (enumerate 0 releases)"

definition main_fail :: "('s, 'l) mainModel \<Rightarrow> error \<Rightarrow> ('s, 'l) model \<times> cmd" where
  \<comment> \<open>\<open>m.err = msg.err; m.state = mainStateError; return m, tea.Quit\<close>\<close>
  "main_fail m e = (MainM (m\<lparr>m_err := Some e, m_state := mainStateError\<rparr>), Quit)"

definition mainModel_Update ::
  "('s, 'l) ext \<Rightarrow> bool \<Rightarrow> ('s, 'l) mainModel \<Rightarrow> msg \<Rightarrow> ('s, 'l) model \<times> cmd" where
  "mainModel_Update ui stat_ok m msg =
     (case msg of
        KeyMsg k \<Rightarrow>
          (case m_state m of
             mainStateConfirmInstallDeps \<Rightarrow>
               if k = ''y'' \<or> k = ''Y'' then
                 (MainM (m\<lparr>m_state := mainStateInstallingDeps\<rparr>),
                  Batch [SpinnerTick, InstallDependencies (m_distro m) (m_missingDeps m)])
               else if k = ''n'' \<or> k = ''N'' then
                 (MainM (m\<lparr>m_state := mainStateError,
                           m_err := Some ''dependencies are required for Go installation''\<rparr>), Quit)
               else if k = ''q'' \<or> k = ''ctrl+c'' then (MainM m, Quit)
               else list_tail ui m msg
           | mainStateSelectVersion \<Rightarrow>
               if k = ''ctrl+c'' \<or> k = ''q'' then (MainM m, Quit)
               else if k = ''enter'' then
                 (case list_SelectedItem ui (m_list m) of
                    Some i \<Rightarrow> confirm_or_start ui stat_ok (m\<lparr>m_selectedVer := title i\<rparr>)
                  | None \<Rightarrow> list_tail ui m msg)
               else list_tail ui m msg
           | mainStateConfirmOverride \<Rightarrow>
               if k = ''y'' \<or> k = ''Y'' then startInstallation ui m
               else if k = ''n'' \<or> k = ''N'' \<or> k = ''q'' \<or> k = ''ctrl+c'' then (MainM m, Quit)
               else list_tail ui m msg
           | _ \<Rightarrow> list_tail ui m msg)
      | DepsCheckMsg missing distro e \<Rightarrow>
          (case e of
             Some x \<Rightarrow> main_fail m x
           | None \<Rightarrow>
               if length missing = 0 then
                 (MainM (m\<lparr>m_distro := distro, m_state := mainStateFetching\<rparr>),
                  Batch [SpinnerTick, FetchReleases])
               else
                 (MainM (m\<lparr>m_distro := distro, m_missingDeps := missing,
                           m_state := mainStateConfirmInstallDeps\<rparr>), NoCmd))
      | DepsInstallMsg e \<Rightarrow>
          (case e of
             Some x \<Rightarrow> main_fail m x
           | None \<Rightarrow> (MainM (m\<lparr>m_state := mainStateFetching\<rparr>), Batch [SpinnerTick, FetchReleases]))
      | FetchedMsg releases e \<Rightarrow>
          (case e of
             Some x \<Rightarrow> main_fail m x
           | None \<Rightarrow>
               (let m1 = m\<lparr>m_releases := releases\<rparr> in
                if m_selectedVer m1 \<noteq> []
                   \<and> snd (snd (snd (FindBuild (m_releases m1) (m_selectedVer m1) (m_targetOS m1)
                                      (m_targetArch m1)))) = None
                then confirm_or_start ui stat_ok m1
                else (MainM (m1\<lparr>m_list := list_New ui (release_items (m_releases m1)),
                                m_state := mainStateSelectVersion\<rparr>), NoCmd)))
      | InstallCompleteMsg e \<Rightarrow>
          (case e of
             Some x \<Rightarrow> main_fail m x
           | None \<Rightarrow> (MainM (m\<lparr>m_state := mainStateDone\<rparr>), Quit))
      | TickMsg \<Rightarrow>
          if m_state m = mainStateCheckingDeps \<or> m_state m = mainStateInstallingDeps
             \<or> m_state m = mainStateFetching
          then (case spinner_Update ui (m_spinner m) msg of (sp, c) \<Rightarrow> (MainM (m\<lparr>m_spinner := sp\<rparr>), cmd_of_widget c))
          else list_tail ui m msg
      | _ \<Rightarrow> list_tail ui m msg)"

definition isSpace :: "char \<Rightarrow> bool" where
  \<comment> \<open>the ASCII white space of \<open>unicode.IsSpace\<close>: space, \<open>\t\<close>, \<open>\n\<close>, \<open>\v\<close>, \<open>\f\<close>, \<open>\r\<close>\<close>
  "isSpace c = (c \<in> {CHR 0x20, CHR 0x09, CHR 0x0A, CHR 0x0B, CHR 0x0C, CHR 0x0D})"

fun Fields_from :: "string \<Rightarrow> string \<Rightarrow> string list" where
  \<comment> \<open>\<open>strings.Fields\<close> on ASCII text, with the word read so far\<close>
  "Fields_from [] w = (if w = [] then [] else [w])"
| "Fields_from (c # cs) w =
     (if isSpace c then (if w = [] then Fields_from cs [] else w # Fields_from cs [])
      else Fields_from cs (w @ [c]))"

definition Fields :: "string \<Rightarrow> string list" where
  "Fields s = Fields_from s []"

fun Join :: "string list \<Rightarrow> string \<Rightarrow> string" where
  \<comment> \<open>\<open>strings.Join\<close>\<close>
  "Join [] sep = []"
| "Join [x] sep = x"
| "Join (x # y # ys) sep = x @ sep @ Join (y # ys) sep"

definition add_key :: "string list \<Rightarrow> string \<Rightarrow> string list" where
  \<comment> \<open>\<open>packages[pkg] = true\<close> on the keys of the map\<close>
  "add_key ks k = (if k \<in> set ks then ks else ks @ [k])"

definition package_keys :: "distroInfo \<Rightarrow> dependency list \<Rightarrow> string list" where
  \<comment> \<open>the keys of \<open>packages\<close> after the loop over the missing dependencies\<close>
  "package_keys distro deps =
     foldl (\<lambda>ks dep. case map_of (dep_packageName dep) (distro_name distro) of
                        None \<Rightarrow> ks
                      | Some pkgName \<Rightarrow> foldl add_key ks (Fields pkgName))
       [] deps"

definition mainModel_View :: "('s, 'l) ext \<Rightarrow> ('s, 'l) mainModel \<Rightarrow> string" where
  "mainModel_View ui m =
     (case m_state m of
        mainStateCheckingDeps \<Rightarrow>
          Sprintf ''\<newline>%s Checking system dependencies...\<newline>'' [spinner_View ui (m_spinner m)]
      | mainStateConfirmInstallDeps \<Rightarrow>
          (let pkgList = range_order ui (package_keys (m_distro m) (m_missingDeps m));
               installCommand = Sprintf ''sudo %s %s'' [installCmd (m_distro m), Join pkgList '' '']
           in Render ui TitleStyle (warning_sign @ ''  Missing Dependencies'') @ ''\<newline>\<newline>''
              @ ''The following dependencies are required:\<newline>\<newline>''
              @ concat (map (\<lambda>dep. Sprintf (''  '' @ bullet @ '' %s (%s)\<newline>'')
                                      [dep_name dep,
                                       if dep_required dep then ''required'' else ''recommended''])
                         (m_missingDeps m))
              @ ''\<newline>Detected system: ''
              @ Render ui BoldStyle (distro_name (m_distro m))
              @ '' (''
              @ packageManager (m_distro m)
              @ '')\<newline>\<newline>''
              @ ''Install command:\<newline>''
              @ Render ui Color240Style (Sprintf ''  %s'' [installCommand])
              @ ''\<newline>\<newline>''
              @ ''Install dependencies now? (y/n): '')
      | mainStateInstallingDeps \<Rightarrow>
          Sprintf ''\<newline>%s Installing dependencies...\<newline>'' [spinner_View ui (m_spinner m)]
      | mainStateFetching \<Rightarrow>
          Sprintf ''\<newline>%s Fetching Go releases metadata...\<newline>'' [spinner_View ui (m_spinner m)]
      | mainStateSelectVersion \<Rightarrow> ''\<newline>'' @ list_View ui (m_list m)
      | mainStateConfirmOverride \<Rightarrow>
          Render ui TitleStyle (warning_sign @ ''  /usr/local/go already exists. Override? (y/n): '')
      | mainStateInstalling \<Rightarrow> []
      | mainStateError \<Rightarrow>
          Render ui ErrorStyle
            (Sprintf (''\<newline>'' @ ballot_x @ '' Error: %v\<newline>\<newline>'') [show_err (m_err m)])
      | mainStateDone \<Rightarrow>
          Render ui SuccessStyle
            (Sprintf (''\<newline>'' @ check_mark @ '' Successfully installed %s to /usr/local/go\<newline>\<newline>'')
               [m_selectedVer m]))"

definition model_View :: "('s, 'l) ext \<Rightarrow> ('s, 'l) model \<Rightarrow> string" where
  \<comment> \<open>\<open>View()\<close> of the \<open>tea.Model\<close> that \<open>Update\<close> returned\<close>
  "model_View ui mdl =
     (case mdl of MainM m \<Rightarrow> mainModel_View ui m | InstallM im \<Rightarrow> installModel_View ui im)"

section \<open>Concrete collaborators for evaluation\<close>

text \<open>
  A plain instance of the toolkit, on which the model is evaluated at concrete inputs: the
  spinner counts its ticks, the list widget shows its items and selects the first, styles
  leave the text as it is, and a map is visited in insertion order.
\<close>

definition plain_ui :: "(nat, item list) ext" where
  "plain_ui =
     \<lparr>spinner_New = 0,
      spinner_Update = (\<lambda>sp msg. case msg of TickMsg \<Rightarrow> (Suc sp, WidgetOther 0) | _ \<Rightarrow> (sp, WidgetNil)),
      spinner_View = (\<lambda>sp. ''.''),
      list_Zero = [],
      list_New = (\<lambda>items. items),
      list_SelectedItem = (\<lambda>l. case l of [] \<Rightarrow> None | i # rest \<Rightarrow> Some i),
      list_Update = (\<lambda>l msg. (l, WidgetNil)),
      list_View = (\<lambda>l. concat (map (\<lambda>i. title i @ ''\<newline>'') l)),
      Render = (\<lambda>st text. text),
      range_order = (\<lambda>ks. ks)\<rparr>"

definition path_join :: "string \<Rightarrow> string \<Rightarrow> string" where
  \<comment> \<open>\<open>filepath.Join\<close> on a clean directory and a plain file name\<close>
  "path_join dir name = dir @ ''/'' @ name"

definition sample_catalog :: "GoRelease list" where
  "sample_catalog =
     [\<lparr>Version = ''go1.22.1'',
       Files = [\<lparr>Filename = ''go1.22.1.src.tar.gz'', OS = [], Arch = [], Kind = ''source'',
                  Sha256 = ''79c9b9''\<rparr>,
                \<lparr>Filename = ''go1.22.1.linux-amd64.msi'', OS = ''linux'', Arch = ''amd64'',
                  Kind = ''installer'', Sha256 = ''0f0f0f''\<rparr>,
                \<lparr>Filename = ''go1.22.1.linux-amd64.tar.gz'', OS = ''linux'', Arch = ''amd64'',
                  Kind = ''archive'', Sha256 = ''abc123''\<rparr>,
                \<lparr>Filename = ''go1.22.1.linux-amd64-2.tar.gz'', OS = ''linux'', Arch = ''amd64'',
                  Kind = ''archive'', Sha256 = ''def456''\<rparr>]\<rparr>,
      \<lparr>Version = ''go1.21.0'',
       Files = [\<lparr>Filename = ''go1.21.0.darwin-arm64.tar.gz'', OS = ''darwin'', Arch = ''arm64'',
                  Kind = ''archive'', Sha256 = ''777777''\<rparr>]\<rparr>]"

definition one_file :: "string \<Rightarrow> string \<Rightarrow> fsys" where
  \<comment> \<open>a file system with one ordinary file\<close>
  "one_file p c = \<lparr>files = [p \<mapsto> new_file\<lparr>content := c\<rparr>], no_create = {}\<rparr>"

definition empty_digest :: string where
  \<comment> \<open>the SHA-256 digest of the empty byte string,
      \<open>e3b0c44298fc1c149afbf4c8996fb92427ae41e4649b934ca495991b7852b855\<close>\<close>
  "empty_digest =
     [CHR 0xe3, CHR 0xb0, CHR 0xc4, CHR 0x42, CHR 0x98, CHR 0xfc, CHR 0x1c, CHR 0x14,
      CHR 0x9a, CHR 0xfb, CHR 0xf4, CHR 0xc8, CHR 0x99, CHR 0x6f, CHR 0xb9, CHR 0x24,
      CHR 0x27, CHR 0xae, CHR 0x41, CHR 0xe4, CHR 0x64, CHR 0x9b, CHR 0x93, CHR 0x4c,
      CHR 0xa4, CHR 0x95, CHR 0x99, CHR 0x1b, CHR 0x78, CHR 0x52, CHR 0xb8, CHR 0x55]"

definition sha_of_empty :: "string \<Rightarrow> string" where
  \<comment> \<open>SHA-256 where the evaluation below applies it: on the empty file\<close>
  "sha_of_empty bs = empty_digest"



definition apt_distro :: distroInfo where
  \<comment> \<open>what \<open>detectDistro\<close> returns on a Debian host\<close>
  "apt_distro = \<lparr>distro_name = ''debian'', packageManager = ''apt-get'',
                  installCmd = ''apt-get install -y'', updateCmd = ''apt-get update''\<rparr>"

definition preselected :: "string \<Rightarrow> (nat, item list) mainModel" where
  \<comment> \<open>the orchestrator started with \<open>--version\<close>, its dependencies satisfied, waiting for
      the catalog\<close>
  "preselected version =
     (NewMainModel plain_ui ''linux'' ''amd64'' version)
       \<lparr>m_state := mainStateFetching, m_distro := apt_distro\<rparr>"

definition bash_env :: environ where
  "bash_env = \<lparr>HOME = ''/root'', SHELL = ''/bin/bash''\<rparr>"

section \<open>Helper lemmas\<close>

lemma FindBuild_files_find:
  "FindBuild_files fs goos arch =
     find (\<lambda>f. Kind f = ''archive'' \<and> OS f = goos \<and> Arch f = arch) fs"
  by (induction fs) simp_all

lemma FindBuild_as_find:
  "FindBuild all ver goos arch =
     (case find (\<lambda>r. Version r = ver) all of
        None \<Rightarrow> (GoRelease_zero, [], [], Some (''version '' @ ver @ '' not found''))
      | Some r \<Rightarrow>
          (case find (\<lambda>f. Kind f = ''archive'' \<and> OS f = goos \<and> Arch f = arch) (Files r) of
             Some f \<Rightarrow> (r, Filename f, Sha256 f, None)
           | None \<Rightarrow> (r, [], [], Some (''version '' @ ver @ '' exists but no archive for ''
                                          @ goos @ ''/'' @ arch))))"
  by (induction all) (simp_all add: FindBuild_files_find split: option.splits)

lemma verifyChecksum_readable:
  "files fs name = Some f \<Longrightarrow> can_read f \<Longrightarrow> \<not> read_fails f \<Longrightarrow>
   verifyChecksum sha fs name want =
     (if EncodeToString (sha (content f)) = want then None
      else Some (''sha mismatch: want='' @ want @ '' got='' @ EncodeToString (sha (content f))))"
  by (simp add: verifyChecksum_def os_Open_def Let_def)

lemma verifyChecksum_None_iff:
  "(verifyChecksum sha fs name want = None) =
     (\<exists>f. files fs name = Some f \<and> can_read f \<and> \<not> read_fails f
          \<and> EncodeToString (sha (content f)) = want)"
  by (auto simp: verifyChecksum_def os_Open_def Let_def split: option.splits)

lemma EncodeToString_empty_digest:
  "EncodeToString empty_digest
     = ''e3b0c44298fc1c149afbf4c8996fb92427ae41e4649b934ca495991b7852b855''"
  by (simp add: EncodeToString_def empty_digest_def hex_byte_def hextable_def)

lemma hex_equal_fold_upper:
  "hex_equal_fold ''e3b0c44298fc1c149afbf4c8996fb92427ae41e4649b934ca495991b7852b855''
     ''E3B0C44298FC1C149AFBF4C8996FB92427AE41E4649B934CA495991B7852B855''"
  by code_simp


lemma write_bytes_flags:
  "can_read (fst (write_bytes f bs)) = can_read f
   \<and> read_fails (fst (write_bytes f bs)) = read_fails f
   \<and> can_write (fst (write_bytes f bs)) = can_write f"
  by (simp add: write_bytes_def split: option.splits)

lemma write_bytes_complete:
  "snd (write_bytes f bs) = None \<Longrightarrow> content (fst (write_bytes f bs)) = content f @ bs"
  by (auto simp: write_bytes_def split: option.splits if_splits)


lemma appended_text:
  "Sprintf ''\<newline>%s\<newline>%s\<newline>'' [goPathComment, goPath]
     = ''\<newline># Added by go-install\<newline>export PATH=$PATH:/usr/local/go/bin\<newline>''"
  by (simp add: goPathComment_def goPath_def)

lemma Contains_append_right: "Contains b sub \<Longrightarrow> Contains (a @ b) sub"
  by (induction a) simp_all

lemma Contains_appended:
  "Contains ''\<newline># Added by go-install\<newline>export PATH=$PATH:/usr/local/go/bin\<newline>'' ''/usr/local/go/bin''"
  by (simp add: HasPrefix_def)

lemma loop_passes:
  "\<forall>q\<in>set pre. passed_over fs q \<Longrightarrow>
   setupEnvironment_loop fs (pre @ rest) = setupEnvironment_loop fs rest"
  by (induction pre) (auto simp: passed_over_def split: option.splits)

lemma loop_present:
  "files fs p = Some f \<Longrightarrow> can_read f \<Longrightarrow> \<not> read_fails f \<Longrightarrow>
   Contains (content f) ''/usr/local/go/bin'' \<Longrightarrow>
   setupEnvironment_loop fs (p # rest) = (None, fs)"
  by simp

lemma loop_append:
  "files fs p = Some f \<Longrightarrow> can_read f \<Longrightarrow> \<not> read_fails f \<Longrightarrow>
   \<not> Contains (content f) ''/usr/local/go/bin'' \<Longrightarrow> can_write f \<Longrightarrow>
   snd (write_bytes f (Sprintf ''\<newline>%s\<newline>%s\<newline>'' [goPathComment, goPath])) = None \<Longrightarrow>
   setupEnvironment_loop fs (p # rest)
     = (None, put_file fs p (fst (write_bytes f (Sprintf ''\<newline>%s\<newline>%s\<newline>'' [goPathComment, goPath]))))"
  by (cases "write_bytes f (Sprintf ''\<newline>%s\<newline>%s\<newline>'' [goPathComment, goPath])")
     (simp del: Sprintf.simps)

lemma put_file_files: "files (put_file fs p f) = (files fs)(p \<mapsto> f)"
  by (simp add: put_file_def)




























lemma installModel_View_Done:
  "i_state m = installStateDone \<Longrightarrow>
   installModel_View ui m =
     Render ui SuccessStyle
       (''\<newline>'' @ check_mark @ '' Successfully installed %!s(MISSING) to /usr/local/go'')
     @ Render ui InfoStyle
         ''\<newline>Please restart your terminal or run 'source' on your shell configuration file to apply the changes.\<newline>''"
  by (simp add: installModel_View_def check_mark_def)

lemma confirm_or_start_True:
  "confirm_or_start ui True m = (MainM (m\<lparr>m_state := mainStateConfirmOverride\<rparr>), NoCmd)"
  by (simp add: confirm_or_start_def)

lemma list_tail_Main: "\<exists>m' c. list_tail ui m msg = (MainM m', c)"
  by (auto simp: list_tail_def split: prod.splits)

lemma start_only_confirmed:
  assumes "mainModel_Update ui True m msg = (InstallM im, c)"
  shows "m_state m = mainStateConfirmOverride \<and> (msg = KeyMsg ''y'' \<or> msg = KeyMsg ''Y'')"
proof (cases msg)
  case (KeyMsg k)
  with assms list_tail_Main [of ui m msg] show ?thesis
    by (cases "m_state m")
       (auto simp: mainModel_Update_def confirm_or_start_True split: if_splits option.splits)
next
  case (DepsCheckMsg missing distro e)
  with assms show ?thesis
    by (auto simp: mainModel_Update_def main_fail_def split: if_splits option.splits)
next
  case (DepsInstallMsg e)
  with assms show ?thesis
    by (auto simp: mainModel_Update_def main_fail_def split: if_splits option.splits)
next
  case (FetchedMsg releases e)
  with assms show ?thesis
    by (auto simp: mainModel_Update_def main_fail_def confirm_or_start_True Let_def
             split: if_splits option.splits)
next
  case (InstallCompleteMsg e)
  with assms show ?thesis
    by (auto simp: mainModel_Update_def main_fail_def split: if_splits option.splits)
next
  case TickMsg
  with assms list_tail_Main [of ui m msg] show ?thesis
    by (auto simp: mainModel_Update_def split: if_splits prod.splits)
qed (use assms list_tail_Main [of ui m msg] in \<open>auto simp: mainModel_Update_def\<close>)

lemma fetched_fallback:
  assumes "snd (snd (snd (FindBuild releases (m_selectedVer m) (m_targetOS m) (m_targetArch m)))) = Some e"
  shows "mainModel_Update ui stat_ok m (FetchedMsg releases None)
           = (MainM (m\<lparr>m_releases := releases, m_list := list_New ui (release_items releases),
                        m_state := mainStateSelectVersion\<rparr>), NoCmd)"
  using assms by (simp add: mainModel_Update_def Let_def)

lemma run_stepDownload_fails:
  "snd (snd (snd (FindBuild releases v a b))) = Some e \<Longrightarrow>
   run_stepDownload releases v a b io = DownloadedMsg [] [] (Some e)"
  by (auto simp: run_stepDownload_def split: prod.splits option.splits)

section \<open>Build selection\<close>

text \<open>
  Claim C1. For every catalog, version, OS and architecture, \<open>FindBuild\<close> looks at the first
  release of the catalog whose version is the requested string and returns, with that
  release, the file name and digest of its first file of kind \<open>archive\<close> with the requested
  OS and architecture, in published order. When no release has the version it fails with
  \<open>version ... not found\<close>; when the release has no such file it fails with
  \<open>version ... exists but no archive for os/arch\<close>, and the two messages are never equal.
\<close>

theorem FindBuild_selects_first_archive:
  "FindBuild all ver goos arch =
     (case find (\<lambda>r. Version r = ver) all of
        None \<Rightarrow> (GoRelease_zero, [], [], Some (''version '' @ ver @ '' not found''))
      | Some r \<Rightarrow>
          (case find (\<lambda>f. Kind f = ''archive'' \<and> OS f = goos \<and> Arch f = arch) (Files r) of
             Some f \<Rightarrow> (r, Filename f, Sha256 f, None)
           | None \<Rightarrow> (r, [], [], Some (''version '' @ ver @ '' exists but no archive for ''
                                          @ goos @ ''/'' @ arch))))
   \<and> ''version '' @ ver @ '' not found''
       \<noteq> ''version '' @ ver @ '' exists but no archive for '' @ goos @ ''/'' @ arch"
  by (simp add: FindBuild_as_find)

theorem FindBuild_selects_first_archive_witness:
  "FindBuild sample_catalog ''go1.22.1'' ''linux'' ''amd64''
     = (hd sample_catalog, ''go1.22.1.linux-amd64.tar.gz'', ''abc123'', None)
   \<and> FindBuild sample_catalog ''go9.9.9'' ''linux'' ''amd64''
     = (GoRelease_zero, [], [], Some ''version go9.9.9 not found'')
   \<and> FindBuild sample_catalog ''go1.21.0'' ''linux'' ''amd64''
     = (hd (tl sample_catalog), [], [],
        Some ''version go1.21.0 exists but no archive for linux/amd64'')"
  using FindBuild_selects_first_archive [of sample_catalog "''go1.22.1''" "''linux''" "''amd64''"]
        FindBuild_selects_first_archive [of sample_catalog "''go9.9.9''" "''linux''" "''amd64''"]
        FindBuild_selects_first_archive [of sample_catalog "''go1.21.0''" "''linux''" "''amd64''"]
  by (simp add: sample_catalog_def)

section \<open>Version normalization\<close>

text \<open>
  Claim C7. \<open>NormalizeVersion\<close> is idempotent: normalizing twice gives what normalizing once
  gives, for every string. A string that starts with \<open>go\<close> is returned as it is. Every other
  string that is not empty, a bare numeric version among them, gets the prefix \<open>go\<close>:
  \<open>1.22.1\<close> becomes \<open>go1.22.1\<close>. The empty string stays empty.
\<close>

theorem NormalizeVersion_idempotent:
  "NormalizeVersion (NormalizeVersion v) = NormalizeVersion v
   \<and> (HasPrefix v ''go'' \<longrightarrow> NormalizeVersion v = v)
   \<and> (v \<noteq> [] \<and> \<not> HasPrefix v ''go'' \<longrightarrow> NormalizeVersion v = ''go'' @ v)
   \<and> NormalizeVersion [] = []
   \<and> NormalizeVersion ''1.22.1'' = ''go1.22.1''"
  by (auto simp: NormalizeVersion_def HasPrefix_def)

theorem NormalizeVersion_idempotent_witness:
  "HasPrefix ''go1.22.1'' ''go''
   \<and> NormalizeVersion ''go1.22.1'' = ''go1.22.1''
   \<and> NormalizeVersion (NormalizeVersion ''1.21'') = NormalizeVersion ''1.21''
   \<and> ''1.20'' \<noteq> [] \<and> \<not> HasPrefix ''1.20'' ''go''
   \<and> NormalizeVersion ''1.20'' = ''go1.20''"
proof -
  have a: "HasPrefix ''go1.22.1'' ''go''"
    by (simp add: HasPrefix_def)
  have b: "''1.20'' \<noteq> [] \<and> \<not> HasPrefix ''1.20'' ''go''"
    by (simp add: HasPrefix_def)
  from NormalizeVersion_idempotent [of "''go1.22.1''"] a
  have 1: "NormalizeVersion ''go1.22.1'' = ''go1.22.1''" by blast
  from NormalizeVersion_idempotent [of "''1.21''"]
  have 2: "NormalizeVersion (NormalizeVersion ''1.21'') = NormalizeVersion ''1.21''" by blast
  from NormalizeVersion_idempotent [of "''1.20''"] b
  have 3: "NormalizeVersion ''1.20'' = ''go1.20''" by simp
  from a b 1 2 3 show ?thesis by simp
qed

section \<open>Checksum verification\<close>

text \<open>
  Claim C2, as stated: \<open>verifyChecksum\<close> succeeds exactly when the hexadecimal text of the
  file's SHA-256 digest equals the declared digest with letter case ignored. The code
  compares the two strings with \<open>!=\<close>, and \<open>hex.EncodeToString\<close> writes lower-case digits:
  for the empty file and its digest declared in upper case, the texts are equal with case
  ignored, and \<open>verifyChecksum\<close> returns the mismatch error.
\<close>

theorem verifyChecksum_case_counterexample:
  "hex_equal_fold (EncodeToString (sha_of_empty []))
     ''E3B0C44298FC1C149AFBF4C8996FB92427AE41E4649B934CA495991B7852B855''
   \<and> verifyChecksum sha_of_empty (one_file ''go1.22.1.linux-amd64.tar.gz'' [])
        ''go1.22.1.linux-amd64.tar.gz''
        ''E3B0C44298FC1C149AFBF4C8996FB92427AE41E4649B934CA495991B7852B855''
      = Some ''sha mismatch: want=E3B0C44298FC1C149AFBF4C8996FB92427AE41E4649B934CA495991B7852B855 got=e3b0c44298fc1c149afbf4c8996fb92427ae41e4649b934ca495991b7852b855''"
  by (simp add: sha_of_empty_def EncodeToString_empty_digest hex_equal_fold_upper
        verifyChecksum_def os_Open_def one_file_def new_file_def Let_def)

text \<open>
  Claim C2, amended. \<open>verifyChecksum\<close> succeeds exactly when the file can be opened and read
  and the lower-case hexadecimal text of its SHA-256 digest is equal, character for character,
  to the declared digest. A readable file with any other digest text is rejected with the
  error \<open>sha mismatch: want=... got=...\<close>.
\<close>

theorem verifyChecksum_exact_match:
  "(verifyChecksum sha fs name want = None) =
     (\<exists>f. files fs name = Some f \<and> can_read f \<and> \<not> read_fails f
          \<and> EncodeToString (sha (content f)) = want)
   \<and> (\<forall>f. files fs name = Some f \<and> can_read f \<and> \<not> read_fails f
            \<and> EncodeToString (sha (content f)) \<noteq> want
          \<longrightarrow> verifyChecksum sha fs name want
                = Some (''sha mismatch: want='' @ want @ '' got=''
                        @ EncodeToString (sha (content f))))"
  by (simp add: verifyChecksum_None_iff verifyChecksum_readable)

theorem verifyChecksum_exact_match_witness:
  "verifyChecksum sha_of_empty (one_file ''go.tar.gz'' []) ''go.tar.gz''
     ''e3b0c44298fc1c149afbf4c8996fb92427ae41e4649b934ca495991b7852b855'' = None
   \<and> verifyChecksum sha_of_empty (one_file ''go.tar.gz'' []) ''go.tar.gz'' ''abc123''
     = Some ''sha mismatch: want=abc123 got=e3b0c44298fc1c149afbf4c8996fb92427ae41e4649b934ca495991b7852b855''"
  using verifyChecksum_exact_match [of sha_of_empty "one_file ''go.tar.gz'' []" "''go.tar.gz''"
          "''e3b0c44298fc1c149afbf4c8996fb92427ae41e4649b934ca495991b7852b855''"]
        verifyChecksum_exact_match [of sha_of_empty "one_file ''go.tar.gz'' []" "''go.tar.gz''"
          "''abc123''"]
  by (simp add: sha_of_empty_def EncodeToString_empty_digest one_file_def new_file_def)

section \<open>Download\<close>



section \<open>PATH configuration\<close>

text \<open>
  Claim C8, as stated: a selected file that lacks the PATH entry gets exactly one export line
  appended. \<open>setupEnvironment\<close> does not look for the export line: it tests whether the
  content has the substring \<open>/usr/local/go/bin\<close> anywhere. A \<open>.bashrc\<close> whose only line is the
  comment \<open># old: /usr/local/go/bin-backup\<close> has no export line and not the entry, and
  \<open>setupEnvironment\<close> returns success and leaves it as it is.
\<close>

theorem setupEnvironment_path_mention_counterexample:
  "\<not> Contains ''# old: /usr/local/go/bin-backup\<newline>'' goPath
   \<and> \<not> Contains ''# old: /usr/local/go/bin-backup\<newline>'' ''export''
   \<and> setupEnvironment path_join bash_env
         (one_file ''/root/.bashrc'' ''# old: /usr/local/go/bin-backup\<newline>'')
       = (None, one_file ''/root/.bashrc'' ''# old: /usr/local/go/bin-backup\<newline>'')"
  by (simp add: goPath_def HasPrefix_def setupEnvironment_def os_UserHomeDir_def
        configFiles_def bash_env_def path_join_def one_file_def new_file_def)

text \<open>
  Claim C8, amended. \<open>setupEnvironment\<close> settles on the first candidate file that exists and
  can be read, the candidates before it being passed over untouched. If the content of that
  file has the substring \<open>/usr/local/go/bin\<close> anywhere, in an export line or not, the call
  succeeds and the file system is unchanged. If it has not, and the append succeeds, the
  call succeeds and only that file changes: the text
  \<open>\n# Added by go-install\nexport PATH=$PATH:/usr/local/go/bin\n\<close>, with its single export
  line, is added at its end. A second call then changes nothing, so the file keeps one entry.
\<close>

theorem setupEnvironment_idempotent:
  assumes home: "HOME env \<noteq> []"
    and cands: "configFiles join (HOME env) (SHELL env) = pre @ p # post"
    and pre: "\<forall>q\<in>set pre. passed_over fs q"
    and p: "files fs p = Some f" "can_read f" "\<not> read_fails f"
  shows "(Contains (content f) ''/usr/local/go/bin'' \<longrightarrow> setupEnvironment join env fs = (None, fs))
    \<and> (\<not> Contains (content f) ''/usr/local/go/bin'' \<and> can_write f
         \<and> snd (write_bytes f ''\<newline># Added by go-install\<newline>export PATH=$PATH:/usr/local/go/bin\<newline>'') = None
       \<longrightarrow> (let f' = fst (write_bytes f ''\<newline># Added by go-install\<newline>export PATH=$PATH:/usr/local/go/bin\<newline>'')
            in setupEnvironment join env fs = (None, put_file fs p f')
               \<and> content f' = content f @ ''\<newline># Added by go-install\<newline>export PATH=$PATH:/usr/local/go/bin\<newline>''
               \<and> setupEnvironment join env (put_file fs p f') = (None, put_file fs p f')))"
proof -
  let ?t = "''\<newline># Added by go-install\<newline>export PATH=$PATH:/usr/local/go/bin\<newline>''"
  have run: "setupEnvironment join env fs' = setupEnvironment_loop fs' (pre @ p # post)" for fs'
    using home cands by (simp add: setupEnvironment_def os_UserHomeDir_def)
  have first: "setupEnvironment join env fs = setupEnvironment_loop fs (p # post)"
    using run loop_passes [OF pre] by simp
  have a: "setupEnvironment join env fs = (None, fs)" if "Contains (content f) ''/usr/local/go/bin''"
    using first loop_present [OF p that] by simp
  have b: "setupEnvironment join env fs = (None, put_file fs p (fst (write_bytes f ?t)))
              \<and> content (fst (write_bytes f ?t)) = content f @ ?t
              \<and> setupEnvironment join env (put_file fs p (fst (write_bytes f ?t)))
                  = (None, put_file fs p (fst (write_bytes f ?t)))"
    if lacks: "\<not> Contains (content f) ''/usr/local/go/bin''" and w: "can_write f"
      and ok: "snd (write_bytes f ?t) = None"
  proof -
    let ?f' = "fst (write_bytes f ?t)"
    let ?fs' = "put_file fs p ?f'"
    have ok': "snd (write_bytes f (Sprintf ''\<newline>%s\<newline>%s\<newline>'' [goPathComment, goPath])) = None"
      using ok by (simp only: appended_text)
    have one: "setupEnvironment join env fs = (None, ?fs')"
      using first loop_append [OF p lacks w ok'] by (simp only: appended_text)
    have c: "content ?f' = content f @ ?t"
      using write_bytes_complete [OF ok] .
    have notpre: "p \<notin> set pre"
    proof
      assume "p \<in> set pre"
      with pre have "passed_over fs p" by blast
      with p lacks w show False by (simp add: passed_over_def)
    qed
    have pre': "\<forall>q\<in>set pre. passed_over ?fs' q"
      using pre notpre by (auto simp: passed_over_def put_file_files)
    have p': "files ?fs' p = Some ?f'" "can_read ?f'" "\<not> read_fails ?f'"
      using p write_bytes_flags [of f ?t] by (simp_all add: put_file_files)
    have has: "Contains (content ?f') ''/usr/local/go/bin''"
      unfolding c by (rule Contains_append_right [OF Contains_appended])
    have two: "setupEnvironment join env ?fs' = (None, ?fs')"
      using run [of ?fs'] loop_passes [OF pre'] loop_present [OF p' has] by simp
    from one c two show ?thesis by simp
  qed
  from a b show ?thesis unfolding Let_def by blast
qed

theorem setupEnvironment_idempotent_witness:
  "setupEnvironment path_join bash_env (one_file ''/root/.bash_profile'' ''# profile\<newline>'')
     = (None, one_file ''/root/.bash_profile''
                (''# profile\<newline>'' @ ''\<newline># Added by go-install\<newline>export PATH=$PATH:/usr/local/go/bin\<newline>''))
   \<and> setupEnvironment path_join bash_env
         (one_file ''/root/.bash_profile''
            (''# profile\<newline>'' @ ''\<newline># Added by go-install\<newline>export PATH=$PATH:/usr/local/go/bin\<newline>''))
     = (None, one_file ''/root/.bash_profile''
                (''# profile\<newline>'' @ ''\<newline># Added by go-install\<newline>export PATH=$PATH:/usr/local/go/bin\<newline>''))"
proof -
  let ?p = "''/root/.bash_profile''"
  let ?t = "''\<newline># Added by go-install\<newline>export PATH=$PATH:/usr/local/go/bin\<newline>''"
  let ?f = "new_file\<lparr>content := ''# profile\<newline>''\<rparr>"
  let ?g = "new_file\<lparr>content := ''# profile\<newline>'' @ ?t\<rparr>"
  have home: "HOME bash_env \<noteq> []"
    by (simp add: bash_env_def)
  have cands: "configFiles path_join (HOME bash_env) (SHELL bash_env) = [''/root/.bashrc''] @ ?p # []"
    by (simp add: configFiles_def bash_env_def path_join_def HasPrefix_def)
  have pre1: "\<forall>q\<in>set [''/root/.bashrc'']. passed_over (one_file ?p ''# profile\<newline>'') q"
    by (simp add: passed_over_def one_file_def)
  have pre2: "\<forall>q\<in>set [''/root/.bashrc'']. passed_over (one_file ?p (''# profile\<newline>'' @ ?t)) q"
    by (simp add: passed_over_def one_file_def)
  have f: "files (one_file ?p ''# profile\<newline>'') ?p = Some ?f" "can_read ?f" "\<not> read_fails ?f"
    by (simp_all add: one_file_def new_file_def)
  have g: "files (one_file ?p (''# profile\<newline>'' @ ?t)) ?p = Some ?g" "can_read ?g" "\<not> read_fails ?g"
    by (simp_all add: one_file_def new_file_def)
  have lacks: "\<not> Contains (content ?f) ''/usr/local/go/bin'' \<and> can_write ?f \<and> snd (write_bytes ?f ?t) = None"
    by (simp add: new_file_def write_bytes_def HasPrefix_def)
  have has: "Contains (content ?g) ''/usr/local/go/bin''"
    by (simp add: new_file_def HasPrefix_def)
  have w: "fst (write_bytes ?f ?t) = ?g"
    by (simp add: new_file_def write_bytes_def)
  have put: "put_file (one_file ?p ''# profile\<newline>'') ?p ?g = one_file ?p (''# profile\<newline>'' @ ?t)"
    by (simp add: put_file_def one_file_def)
  from setupEnvironment_idempotent [OF home cands pre1 f] lacks
  have first: "setupEnvironment path_join bash_env (one_file ?p ''# profile\<newline>'')
                 = (None, one_file ?p (''# profile\<newline>'' @ ?t))"
    unfolding Let_def w put by blast
  from setupEnvironment_idempotent [OF home cands pre2 g] has
  have second: "setupEnvironment path_join bash_env (one_file ?p (''# profile\<newline>'' @ ?t))
                  = (None, one_file ?p (''# profile\<newline>'' @ ?t))"
    by blast
  from first second show ?thesis by simp
qed

section \<open>Ordering of the pipeline\<close>



section \<open>The final report of the pipeline\<close>

text \<open>
  Claim C9. A successful \<open>configuredMsg\<close> takes the pipeline to the Done state. The view of
  that state is to name the install location and the installed version; the call of
  \<open>Sprintf\<close> in \<open>installModel.View\<close> has the verb \<open>%s\<close> and no operand, so for the model of
  version \<open>go1.22.1\<close> the report reads \<open>Successfully installed %!s(MISSING) to /usr/local/go\<close>:
  it contains the location and not the version.
\<close>

theorem installModel_Done_view_lacks_version:
  "(let m = (newInstallModel plain_ui ''go1.22.1'' ''linux'' ''amd64'' sample_catalog)
              \<lparr>i_state := installStateConfiguring\<rparr>;
        m' = fst (installModel_Update plain_ui m (ConfiguredMsg None))
    in installModel_Update plain_ui m (ConfiguredMsg None) = (m\<lparr>i_state := installStateDone\<rparr>, Quit)
       \<and> i_version m' = ''go1.22.1''
       \<and> installModel_View plain_ui m'
           = ''\<newline>'' @ check_mark @ '' Successfully installed %!s(MISSING) to /usr/local/go''
             @ ''\<newline>Please restart your terminal or run 'source' on your shell configuration file to apply the changes.\<newline>''
       \<and> Contains (installModel_View plain_ui m') ''/usr/local/go''
       \<and> \<not> Contains (installModel_View plain_ui m') ''go1.22.1'')"
  by (simp add: installModel_Update_def installModel_View_Done newInstallModel_def Let_def
        plain_ui_def check_mark_def HasPrefix_def)

section \<open>The orchestrator's confirmations\<close>

text \<open>
  Claim C4. When \<open>os.Stat\<close> finds the install root, the orchestrator starts the pipeline only
  on the key \<open>y\<close> or \<open>Y\<close> in the state ConfirmOverride: no other state and no other message
  hands over to the install model. Both ways to a version lead to that state first: the
  catalog arriving for a pre-selected version that has a build, and \<open>enter\<close> on an item of
  the picker. On \<open>n\<close>, \<open>N\<close>, \<open>q\<close> or \<open>ctrl+c\<close> in ConfirmOverride the session ends: the model
  is returned as it is with \<open>tea.Quit\<close> and no other command, so no step of the pipeline
  (none of which has run yet) touches the install directory.
\<close>

theorem overwrite_needs_confirmation:
  "(mainModel_Update ui True m msg = (InstallM im, c)
      \<longrightarrow> m_state m = mainStateConfirmOverride \<and> (msg = KeyMsg ''y'' \<or> msg = KeyMsg ''Y''))
   \<and> (m_selectedVer m \<noteq> []
        \<and> snd (snd (snd (FindBuild releases (m_selectedVer m) (m_targetOS m) (m_targetArch m)))) = None
      \<longrightarrow> mainModel_Update ui True m (FetchedMsg releases None)
            = (MainM (m\<lparr>m_releases := releases, m_state := mainStateConfirmOverride\<rparr>), NoCmd))
   \<and> (m_state m = mainStateSelectVersion \<and> list_SelectedItem ui (m_list m) = Some i
      \<longrightarrow> mainModel_Update ui True m (KeyMsg ''enter'')
            = (MainM (m\<lparr>m_selectedVer := title i, m_state := mainStateConfirmOverride\<rparr>), NoCmd))
   \<and> (m_state m = mainStateConfirmOverride \<and> (k = ''n'' \<or> k = ''N'' \<or> k = ''q'' \<or> k = ''ctrl+c'')
      \<longrightarrow> mainModel_Update ui stat_ok m (KeyMsg k) = (MainM m, Quit))"
  using start_only_confirmed [of ui m msg im c]
  by (auto simp: mainModel_Update_def confirm_or_start_True Let_def)

theorem overwrite_needs_confirmation_witness:
  "mainModel_Update plain_ui True
       ((preselected ''1.22.1'')\<lparr>m_releases := sample_catalog, m_state := mainStateConfirmOverride\<rparr>)
       (KeyMsg ''y'')
     = (InstallM (newInstallModel plain_ui ''go1.22.1'' ''linux'' ''amd64'' sample_catalog),
        Batch [SpinnerTick, StepDownload sample_catalog ''go1.22.1'' ''linux'' ''amd64''])
   \<and> mainModel_Update plain_ui True (preselected ''1.22.1'') (FetchedMsg sample_catalog None)
     = (MainM ((preselected ''1.22.1'')\<lparr>m_releases := sample_catalog,
                                          m_state := mainStateConfirmOverride\<rparr>), NoCmd)
   \<and> mainModel_Update plain_ui True
       ((preselected [])\<lparr>m_list := release_items sample_catalog, m_state := mainStateSelectVersion\<rparr>)
       (KeyMsg ''enter'')
     = (MainM ((preselected [])\<lparr>m_list := release_items sample_catalog,
                                 m_selectedVer := ''go1.22.1'',
                                 m_state := mainStateConfirmOverride\<rparr>), NoCmd)
   \<and> mainModel_Update plain_ui True
       ((preselected ''1.22.1'')\<lparr>m_releases := sample_catalog, m_state := mainStateConfirmOverride\<rparr>)
       (KeyMsg ''n'')
     = (MainM ((preselected ''1.22.1'')\<lparr>m_releases := sample_catalog,
                                          m_state := mainStateConfirmOverride\<rparr>), Quit)"
  using overwrite_needs_confirmation
          [of plain_ui
              "(preselected ''1.22.1'')\<lparr>m_releases := sample_catalog, m_state := mainStateConfirmOverride\<rparr>"
              "KeyMsg ''y''"
              "newInstallModel plain_ui ''go1.22.1'' ''linux'' ''amd64'' sample_catalog"
              "Batch [SpinnerTick, StepDownload sample_catalog ''go1.22.1'' ''linux'' ''amd64'']"
              sample_catalog "hd (release_items sample_catalog)" "''n''" True]
        overwrite_needs_confirmation
          [of plain_ui "preselected ''1.22.1''" "KeyMsg ''y''" _ _ sample_catalog
              "hd (release_items sample_catalog)" "''n''" True]
        overwrite_needs_confirmation
          [of plain_ui
              "(preselected [])\<lparr>m_list := release_items sample_catalog, m_state := mainStateSelectVersion\<rparr>"
              "KeyMsg ''y''" _ _ sample_catalog "hd (release_items sample_catalog)" "''n''" True]
  by (simp add: preselected_def NewMainModel_def NormalizeVersion_def HasPrefix_def
        mainModel_Update_def startInstallation_def confirm_or_start_def newInstallModel_def
        installModel_Init_def stepDownload_def Let_def sample_catalog_def release_items_def
        plain_ui_def enumerate_eq_zip)

text \<open>
  Claim C5. In the state ConfirmInstallDeps, whatever the missing dependencies are (required,
  recommended or both), the key \<open>n\<close> or \<open>N\<close> puts the orchestrator in the Error state with the
  error \<open>dependencies are required for Go installation\<close> and ends the session with
  \<open>tea.Quit\<close>. No key other than \<open>y\<close> and \<open>Y\<close> issues a command that installs or fetches
  anything: the command is \<open>tea.Quit\<close> or none, and the state stays ConfirmInstallDeps or
  becomes Error.
\<close>

theorem decline_dependencies_is_fatal:
  "(m_state m = mainStateConfirmInstallDeps \<and> (k = ''n'' \<or> k = ''N'')
      \<longrightarrow> mainModel_Update ui stat_ok (m\<lparr>m_missingDeps := deps\<rparr>) (KeyMsg k)
            = (MainM (m\<lparr>m_missingDeps := deps, m_state := mainStateError,
                         m_err := Some ''dependencies are required for Go installation''\<rparr>), Quit))
   \<and> (m_state m = mainStateConfirmInstallDeps \<and> k' \<noteq> ''y'' \<and> k' \<noteq> ''Y''
      \<longrightarrow> snd (mainModel_Update ui stat_ok (m\<lparr>m_missingDeps := deps\<rparr>) (KeyMsg k')) \<in> {Quit, NoCmd}
          \<and> (case fst (mainModel_Update ui stat_ok (m\<lparr>m_missingDeps := deps\<rparr>) (KeyMsg k')) of
                MainM m' \<Rightarrow> m_state m' = mainStateConfirmInstallDeps \<or> m_state m' = mainStateError
              | InstallM im \<Rightarrow> False))"
  by (auto simp: mainModel_Update_def list_tail_def)


theorem decline_dependencies_is_fatal_witness:
  "mainModel_Update plain_ui True
       ((preselected ''1.22.1'')\<lparr>m_state := mainStateConfirmInstallDeps,
                                  m_missingDeps := filter (\<lambda>d. \<not> dep_required d) requiredDeps\<rparr>)
       (KeyMsg ''n'')
     = (MainM ((preselected ''1.22.1'')
                 \<lparr>m_state := mainStateError,
                  m_missingDeps := filter (\<lambda>d. \<not> dep_required d) requiredDeps,
                  m_err := Some ''dependencies are required for Go installation''\<rparr>), Quit)
   \<and> length (filter (\<lambda>d. \<not> dep_required d) requiredDeps) = 1
   \<and> snd (mainModel_Update plain_ui True
            ((preselected ''1.22.1'')\<lparr>m_state := mainStateConfirmInstallDeps,
                                       m_missingDeps := requiredDeps\<rparr>)
            (KeyMsg ''x'')) = NoCmd"
  using decline_dependencies_is_fatal
          [of "(preselected ''1.22.1'')\<lparr>m_state := mainStateConfirmInstallDeps\<rparr>" "''n''"
              plain_ui True "filter (\<lambda>d. \<not> dep_required d) requiredDeps" "''x''"]
        decline_dependencies_is_fatal
          [of "(preselected ''1.22.1'')\<lparr>m_state := mainStateConfirmInstallDeps\<rparr>" "''n''"
              plain_ui True requiredDeps "''x''"]
  by (simp add: mainModel_Update_def list_tail_def requiredDeps_def)

section \<open>Build-selection failures at the user interface\<close>

text \<open>
  Claim C6, as stated: when build selection fails for a pre-selected version, the orchestrator
  shows the user which of the two failures it was. The handler of \<open>fetchedMsg\<close> tests the
  error of \<open>FindBuild\<close> against \<open>nil\<close> and drops it: for \<open>9.9.9\<close> (absent from the catalog) and
  for \<open>1.21.0\<close> (present, no archive for linux/amd64) the two errors differ, and the
  orchestrator shows the same picker and issues no command in both cases.
\<close>

theorem preselected_failures_look_alike_counterexample:
  "snd (snd (snd (FindBuild sample_catalog ''go9.9.9'' ''linux'' ''amd64'')))
     = Some ''version go9.9.9 not found''
   \<and> snd (snd (snd (FindBuild sample_catalog ''go1.21.0'' ''linux'' ''amd64'')))
     = Some ''version go1.21.0 exists but no archive for linux/amd64''
   \<and> model_View plain_ui (fst (mainModel_Update plain_ui True (preselected ''9.9.9'') (FetchedMsg sample_catalog None)))
     = ''\<newline>go1.22.1\<newline>go1.21.0\<newline>''
   \<and> model_View plain_ui (fst (mainModel_Update plain_ui True (preselected ''1.21.0'') (FetchedMsg sample_catalog None)))
     = ''\<newline>go1.22.1\<newline>go1.21.0\<newline>''
   \<and> snd (mainModel_Update plain_ui True (preselected ''9.9.9'') (FetchedMsg sample_catalog None)) = NoCmd
   \<and> snd (mainModel_Update plain_ui True (preselected ''1.21.0'') (FetchedMsg sample_catalog None)) = NoCmd"
  by (simp add: preselected_def NewMainModel_def NormalizeVersion_def HasPrefix_def
        mainModel_Update_def Let_def sample_catalog_def model_View_def mainModel_View_def
        release_items_def plain_ui_def enumerate_eq_zip)

text \<open>
  Claim C6, amended. When \<open>FindBuild\<close> fails for the pre-selected version, the orchestrator
  keeps no trace of the error: it stores the catalog, builds the picker from all releases,
  goes to SelectVersion with no command, and its view is the picker, the same for both
  failures. The failures are told apart where the pipeline selects the build: when \<open>FindBuild\<close>
  fails in the download step, the pipeline ends in the Error state and its view shows the
  message of \<open>FindBuild\<close>, and the two messages are never equal.
\<close>

theorem selection_failure_falls_back_to_picker:
  "(snd (snd (snd (FindBuild releases (m_selectedVer m) (m_targetOS m) (m_targetArch m)))) = Some e
      \<longrightarrow> mainModel_Update ui stat_ok m (FetchedMsg releases None)
            = (MainM (m\<lparr>m_releases := releases, m_list := list_New ui (release_items releases),
                         m_state := mainStateSelectVersion\<rparr>), NoCmd)
          \<and> model_View ui (fst (mainModel_Update ui stat_ok m (FetchedMsg releases None)))
            = ''\<newline>'' @ list_View ui (list_New ui (release_items releases)))
   \<and> (snd (snd (snd (FindBuild (i_releases im) (i_version im) (i_targetOS im) (i_targetArch im)))) = Some e'
      \<longrightarrow> run_step (stepDownload im) io = Some (DownloadedMsg [] [] (Some e'))
          \<and> installModel_Update ui im (DownloadedMsg [] [] (Some e'))
            = (im\<lparr>i_err := Some e', i_state := installStateError\<rparr>, Quit)
          \<and> installModel_View ui (im\<lparr>i_err := Some e', i_state := installStateError\<rparr>)
            = Render ui ErrorStyle (''\<newline>'' @ ballot_x @ '' Error: '' @ e' @ ''\<newline>\<newline>''))
   \<and> ''version '' @ ver @ '' not found''
       \<noteq> ''version '' @ ver @ '' exists but no archive for '' @ goos @ ''/'' @ arch"
  by (auto simp: fetched_fallback model_View_def mainModel_View_def run_step_def stepDownload_def
        run_stepDownload_fails installModel_Update_def fail_with_def installModel_View_def
        show_err_def ballot_x_def)

theorem selection_failure_falls_back_to_picker_witness:
  "mainModel_Update plain_ui True (preselected ''9.9.9'') (FetchedMsg sample_catalog None)
     = (MainM ((preselected ''9.9.9'')\<lparr>m_releases := sample_catalog,
                                        m_list := release_items sample_catalog,
                                        m_state := mainStateSelectVersion\<rparr>), NoCmd)
   \<and> run_step (stepDownload (newInstallModel plain_ui ''go1.21.0'' ''linux'' ''amd64'' sample_catalog))
         (\<lambda>arg. None)
     = Some (DownloadedMsg [] [] (Some ''version go1.21.0 exists but no archive for linux/amd64''))
   \<and> installModel_View plain_ui
         (fst (installModel_Update plain_ui
                 (newInstallModel plain_ui ''go1.21.0'' ''linux'' ''amd64'' sample_catalog)
                 (DownloadedMsg [] [] (Some ''version go1.21.0 exists but no archive for linux/amd64''))))
     = ''\<newline>'' @ ballot_x @ '' Error: version go1.21.0 exists but no archive for linux/amd64\<newline>\<newline>''"
  using selection_failure_falls_back_to_picker
          [of sample_catalog "preselected ''9.9.9''" "''version go9.9.9 not found''" plain_ui True
              "newInstallModel plain_ui ''go1.21.0'' ''linux'' ''amd64'' sample_catalog"
              "''version go1.21.0 exists but no archive for linux/amd64''" "\<lambda>arg. None"
              "''go1.21.0''" "''linux''" "''amd64''"]
  by (simp add: preselected_def NewMainModel_def NormalizeVersion_def HasPrefix_def
        mainModel_Update_def Let_def sample_catalog_def release_items_def plain_ui_def
        enumerate_eq_zip run_step_def stepDownload_def run_stepDownload_def newInstallModel_def
        installModel_Update_def fail_with_def installModel_View_def show_err_def ballot_x_def)

end
